theory Spec2Isabelle
  imports Main "HOL-Library.Sublist"
begin

section \<open>Values, rows and strings\<close>

text \<open>
  The library (\<^verbatim>\<open>lib/index.ts\<close>) never computes with the values it binds: it only moves
  them from rows into the positional parameter array. A value is therefore a small tree of
  JavaScript data; \<open>JUndefined\<close> is what \<^verbatim>\<open>row[key]\<close> yields for a key the row does not have.
  Numbers are kept to the integer-valued ones; \<open>JBigInt\<close> is a \<^verbatim>\<open>bigint\<close> such as \<^verbatim>\<open>1n\<close>,
  which the parameter type \<^verbatim>\<open>Array<unknown>\<close> admits.
\<close>

datatype jsval =
    JUndefined
  | JNull
  | JBool bool
  | JNum int
  | JBigInt int
  | JStr string
  | JArr "jsval list"

text \<open>
  \<^verbatim>\<open>JSON.stringify\<close> throws a \<^verbatim>\<open>TypeError\<close> when it meets a \<^verbatim>\<open>bigint\<close>, at any depth;
  every other value of \<open>jsval\<close> has a JSON text.
\<close>

fun serialisable :: "jsval \<Rightarrow> bool" where
  "serialisable (JBigInt n) = False"
| "serialisable (JArr xs) = list_all serialisable xs"
| "serialisable v = True"

text \<open>
  A \<^verbatim>\<open>RiftObjectAny\<close> is a \<^verbatim>\<open>Record<string, any>\<close>. It is kept as the list of its own
  enumerable properties in the order \<^verbatim>\<open>Object.keys\<close> enumerates them, so that
  \<^verbatim>\<open>Object.keys\<close> and \<^verbatim>\<open>Object.values\<close> are the two projections.
\<close>

type_synonym rift_object = "(string \<times> jsval) list"

definition object_keys :: "rift_object \<Rightarrow> string list" where
  "object_keys obj = map fst obj"

definition object_values :: "rift_object \<Rightarrow> jsval list" where
  "object_values obj = map snd obj"

text \<open>\<^verbatim>\<open>row[key]\<close>: the property's value, \<^verbatim>\<open>undefined\<close> when the row has no such key.\<close>

definition row_get :: "rift_object \<Rightarrow> string \<Rightarrow> jsval" where
  "row_get row key = (case map_of row key of None \<Rightarrow> JUndefined | Some v \<Rightarrow> v)"

text \<open>\<^verbatim>\<open>Array.prototype.join\<close> on an array of strings.\<close>

fun join :: "string \<Rightarrow> string list \<Rightarrow> string" where
  "join sep [] = []"
| "join sep [x] = x"
| "join sep (x # y # ys) = x @ sep @ join sep (y # ys)"

text \<open>\<^verbatim>\<open>xs.map((x, i) => f(x, i))\<close>: \<^verbatim>\<open>Array.prototype.map\<close> with the element's index.\<close>

definition mapi :: "('a \<Rightarrow> nat \<Rightarrow> 'b) \<Rightarrow> 'a list \<Rightarrow> 'b list" where
  "mapi f xs = map (\<lambda>(i, x). f x i) (enumerate 0 xs)"

text \<open>
  The decimal text a template literal produces for a non-negative integer index
  (\<^verbatim>\<open>`$${i + 1}`\<close>).
\<close>

definition digit_char :: "nat \<Rightarrow> char" where
  "digit_char d = char_of (48 + d)"

function show_nat :: "nat \<Rightarrow> string" where
  "show_nat n = (if n < 10 then [digit_char n] else show_nat (n div 10) @ [digit_char (n mod 10)])"
  by pat_completeness auto
termination
  by (relation "measure (\<lambda>n. n)") auto

declare show_nat.simps [simp del]

section \<open>The driver\<close>

text \<open>
  What \<^verbatim>\<open>conn.query\<close> can throw, as far as \<^verbatim>\<open>query\<close> tells the cases apart: a
  \<^verbatim>\<open>pg.DatabaseError\<close> (an \<^verbatim>\<open>Error\<close> with the optional fields \<^verbatim>\<open>code\<close>,
  \<^verbatim>\<open>detail\<close>, \<^verbatim>\<open>hint\<close>, \<^verbatim>\<open>position\<close>), any other \<^verbatim>\<open>Error\<close>, or a thrown value that is
  not an \<^verbatim>\<open>Error\<close> at all.
\<close>

record database_error =
  message :: string
  code :: "string option"
  detail :: "string option"
  hint :: "string option"
  position :: "string option"

datatype thrown =
    DatabaseError database_error
  | OtherError string
  | NotAnError

text \<open>
  What \<^verbatim>\<open>query\<close> and the helpers built on it can raise: a \<^verbatim>\<open>RiftError\<close> with its message,
  or the \<^verbatim>\<open>TypeError\<close> of \<^verbatim>\<open>JSON.stringify\<close>.
\<close>

datatype raised = RiftError string | TypeError

text \<open>
  The external collaborator: \<open>run\<close> is the driver's answer to one submitted statement,
  over a state \<open>'c\<close> of its own (server, session); \<open>connect\<close> is \<^verbatim>\<open>pool.connect()\<close>, which
  may reject; \<open>release\<close> is \<^verbatim>\<open>client.release(true)\<close>.
\<close>

record ('c, 'r) driver =
  run :: "'c \<Rightarrow> string \<Rightarrow> jsval list \<Rightarrow> (thrown + 'r list) \<times> 'c"
  connect :: "'c \<Rightarrow> thrown option \<times> 'c"
  release :: "'c \<Rightarrow> 'c"

text \<open>
  A \<^verbatim>\<open>pg.PoolClient\<close> as the library sees it: the driver's state behind it and the
  statements submitted through it so far, each with the parameter array it was given.
\<close>

record 'c pool_client =
  backend :: 'c
  sent :: "(string \<times> jsval list) list"

text \<open>\<^verbatim>\<open>conn.query(query, values)\<close>: one submission to the driver.\<close>

definition conn_query ::
  "('c, 'r) driver \<Rightarrow> 'c pool_client \<Rightarrow> string \<Rightarrow> jsval list \<Rightarrow> (thrown + 'r list) \<times> 'c pool_client" where
  "conn_query drv conn q vals =
     (case run drv (backend conn) q vals of
        (res, c') \<Rightarrow> (res, conn\<lparr>backend := c', sent := sent conn @ [(q, vals)]\<rparr>))"

section \<open>The generic query executor\<close>

text \<open>\<^verbatim>\<open>x ?? 'N/A'\<close> for an optional string field.\<close>

definition or_na :: "string option \<Rightarrow> string" where
  "or_na x = (case x of None \<Rightarrow> ''N/A'' | Some s \<Rightarrow> s)"

text \<open>
  \<^verbatim>\<open>JSON.stringify(values)\<close>. The parameter \<open>stringify\<close> is the text it yields where it
  yields one; on an array that holds a \<^verbatim>\<open>bigint\<close> it throws instead.
\<close>

definition json_stringify :: "(jsval list \<Rightarrow> string) \<Rightarrow> jsval list \<Rightarrow> raised + string" where
  "json_stringify stringify vals =
     (if list_all serialisable vals then Inr (stringify vals) else Inl TypeError)"

text \<open>
  The message of the \<^verbatim>\<open>RiftError\<close> built for a \<^verbatim>\<open>pg.DatabaseError\<close> in the \<^verbatim>\<open>catch\<close> block
  of \<^verbatim>\<open>query\<close>, given the text \<open>serialised\<close> of the parameter array.
\<close>

definition database_error_message :: "database_error \<Rightarrow> string \<Rightarrow> string \<Rightarrow> string" where
  "database_error_message d q serialised =
     join ''\<newline>''
       [ ''Database Error: '' @ message d,
         '''',
         ''Code: '' @ or_na (code d),
         ''Detail: '' @ or_na (detail d),
         ''Hint: '' @ or_na (hint d),
         ''Position: '' @ or_na (position d),
         ''Query: '' @ q,
         ''Values: '' @ serialised ]"

text \<open>
  What the \<^verbatim>\<open>catch\<close> block throws. Only the \<^verbatim>\<open>pg.DatabaseError\<close> branch evaluates
  \<^verbatim>\<open>JSON.stringify(values)\<close>; when that throws, its \<^verbatim>\<open>TypeError\<close> leaves \<^verbatim>\<open>query\<close> and no
  \<^verbatim>\<open>RiftError\<close> is built.
\<close>

definition query_catch :: "(jsval list \<Rightarrow> string) \<Rightarrow> thrown \<Rightarrow> string \<Rightarrow> jsval list \<Rightarrow> raised" where
  "query_catch stringify e q vals =
     (case e of
        DatabaseError d \<Rightarrow>
          (case json_stringify stringify vals of
             Inl err \<Rightarrow> err
           | Inr serialised \<Rightarrow> RiftError (database_error_message d q serialised))
      | OtherError m \<Rightarrow> RiftError (''Query failed: '' @ m)
      | NotAnError \<Rightarrow> RiftError (''Query failed: '' @ ''unknown error''))"

text \<open>
  Arrays are objects: a caller hands \<^verbatim>\<open>query\<close> a reference to its parameter array. The
  store maps each reference to the array's present contents.
\<close>

type_synonym ref = nat

type_synonym store = "ref \<Rightarrow> jsval list"

text \<open>
  \<^verbatim>\<open>query\<close>, with \<open>values\<close> a reference into the store \<open>h\<close>. The array is read where the
  source uses it (\<^verbatim>\<open>conn.query(query, values)\<close>, \<^verbatim>\<open>JSON.stringify(values)\<close>); the body
  holds no write to it, so the store is handed back as it came.
\<close>

definition query_at ::
  "(jsval list \<Rightarrow> string) \<Rightarrow> ('c, 'r) driver \<Rightarrow> store \<Rightarrow> 'c pool_client \<Rightarrow> string \<Rightarrow> ref
     \<Rightarrow> ((raised + 'r list) \<times> 'c pool_client) \<times> store" where
  "query_at stringify drv h conn q values =
     (case conn_query drv conn q (h values) of
        (Inl e, conn') \<Rightarrow> ((Inl (query_catch stringify e q (h values)), conn'), h)
      | (Inr rows, conn') \<Rightarrow> ((Inr rows, conn'), h))"

text \<open>
  \<^verbatim>\<open>query\<close> called with an array nobody else holds, as \<^verbatim>\<open>insert\<close>, \<^verbatim>\<open>update\<close>,
  \<^verbatim>\<open>remove\<close> and \<^verbatim>\<open>init_pool\<close> call it (a local array, a spread, \<^verbatim>\<open>Object.values\<close>, the
  default \<^verbatim>\<open>[]\<close>): the array sits in a store of its own and only the outcome is kept.
\<close>

definition query ::
  "(jsval list \<Rightarrow> string) \<Rightarrow> ('c, 'r) driver \<Rightarrow> 'c pool_client \<Rightarrow> string \<Rightarrow> jsval list
     \<Rightarrow> (raised + 'r list) \<times> 'c pool_client" where
  "query stringify drv conn q vals = fst (query_at stringify drv (\<lambda>_. vals) conn q 0)"

section \<open>The insert builder\<close>

text \<open>
  The \<^verbatim>\<open>for\<close> loop of \<^verbatim>\<open>insert\<close> over the rows still to visit, with the loop counter
  \<open>rowIndex\<close> and the two arrays it pushes to.
\<close>

fun insert_loop ::
  "string list \<Rightarrow> rift_object list \<Rightarrow> nat \<Rightarrow> jsval list \<Rightarrow> string list \<Rightarrow> jsval list \<times> string list" where
  "insert_loop keys [] rowIndex vals valuePlaceholders = (vals, valuePlaceholders)"
| "insert_loop keys (row # rest) rowIndex vals valuePlaceholders =
     (let rowValues = map (row_get row) keys;
          placeholders =
            join '', ''
              (mapi (\<lambda>_ i. ''$'' @ show_nat (rowIndex * length keys + i + 1)) rowValues)
      in insert_loop keys rest (Suc rowIndex)
           (vals @ rowValues) (valuePlaceholders @ [''('' @ placeholders @ '')'']))"

text \<open>\<^verbatim>\<open>conflict?.length\<close> is truthy exactly for a present, non-empty array.\<close>

definition updateClause :: "string list \<Rightarrow> string list option \<Rightarrow> string" where
  "updateClause keys conflict =
     (case conflict of
        None \<Rightarrow> ''''
      | Some cols \<Rightarrow>
          (if cols = [] then ''''
           else ''ON CONFLICT ('' @ join '', '' cols @ '') DO UPDATE SET ''
                @ join '', '' (map (\<lambda>k. k @ '' = EXCLUDED.'' @ k) keys)))"

text \<open>
  The statement text and the parameter array \<^verbatim>\<open>insert\<close> hands to \<^verbatim>\<open>query\<close> for a
  non-empty \<open>data\<close> whose first row is \<open>row0\<close>.
\<close>

definition insert_statement ::
  "string \<Rightarrow> rift_object \<Rightarrow> rift_object list \<Rightarrow> string list option \<Rightarrow> string \<times> jsval list" where
  "insert_statement table row0 data conflict =
     (let keys = object_keys row0;
          (vals, valuePlaceholders) = insert_loop keys data 0 [] [];
          queryText =
            ''\<newline>    INSERT INTO '' @ table @ '' ('' @ join '', '' keys @ '')''
            @ ''\<newline>    VALUES '' @ join '', '' valuePlaceholders
            @ ''\<newline>    '' @ updateClause keys conflict
            @ ''\<newline>    RETURNING *;\<newline>  ''
      in (queryText, vals))"

definition insert ::
  "(jsval list \<Rightarrow> string) \<Rightarrow> ('c, 'r) driver \<Rightarrow> 'c pool_client \<Rightarrow> string \<Rightarrow> rift_object list
     \<Rightarrow> string list option \<Rightarrow> (raised + 'r list) \<times> 'c pool_client" where
  "insert stringify drv conn table data conflict =
     (case data of
        [] \<Rightarrow> (Inr [], conn)
      | row0 # _ \<Rightarrow>
          (case insert_statement table row0 data conflict of
             (queryText, vals) \<Rightarrow> query stringify drv conn queryText vals))"

section \<open>The update builder\<close>

text \<open>The statement text and the parameter array \<^verbatim>\<open>update\<close> hands to \<^verbatim>\<open>query\<close>.\<close>

definition update_statement :: "string \<Rightarrow> rift_object \<Rightarrow> rift_object \<Rightarrow> string \<times> jsval list" where
  "update_statement table where_obj data =
     (let keys = object_keys data;
          vals = object_values data;
          where_keys = object_keys where_obj;
          where_values = object_values where_obj
      in (''update '' @ table @ '' set ''
            @ join '', '' (mapi (\<lambda>k i. k @ '' = $'' @ show_nat (i + 1)) keys)
            @ '' where ''
            @ join '' and '' (mapi (\<lambda>k i. k @ '' = $'' @ show_nat (i + 1 + length keys)) where_keys)
            @ '' returning *'',
          vals @ where_values))"

text \<open>
  Rows the driver reports are objects, hence truthy: \<^verbatim>\<open>!res[0]\<close> holds exactly when
  \<open>res\<close> is empty.
\<close>

definition update ::
  "(jsval list \<Rightarrow> string) \<Rightarrow> ('c, 'r) driver \<Rightarrow> 'c pool_client \<Rightarrow> string \<Rightarrow> rift_object
     \<Rightarrow> rift_object \<Rightarrow> (raised + 'r) \<times> 'c pool_client" where
  "update stringify drv conn table where_obj data =
     (case update_statement table where_obj data of
        (queryText, vals) \<Rightarrow>
          (case query stringify drv conn queryText vals of
             (Inl err, conn') \<Rightarrow> (Inl err, conn')
           | (Inr res, conn') \<Rightarrow>
               (case res of
                  [] \<Rightarrow> (Inl (RiftError ''Update failed: no rows affected''), conn')
                | r # _ \<Rightarrow> (Inr r, conn'))))"

section \<open>The delete builder\<close>

definition remove_statement :: "string \<Rightarrow> rift_object \<Rightarrow> string \<times> jsval list" where
  "remove_statement table where_obj =
     (let keys = object_keys where_obj;
          vals = object_values where_obj
      in (''delete from '' @ table @ '' where ''
            @ join '' and '' (mapi (\<lambda>k i. k @ '' = $'' @ show_nat (i + 1)) keys),
          vals))"

definition remove ::
  "(jsval list \<Rightarrow> string) \<Rightarrow> ('c, 'r) driver \<Rightarrow> 'c pool_client \<Rightarrow> string \<Rightarrow> rift_object
     \<Rightarrow> (raised + unit) \<times> 'c pool_client" where
  "remove stringify drv conn table where_obj =
     (case remove_statement table where_obj of
        (queryText, vals) \<Rightarrow>
          (case query stringify drv conn queryText vals of
             (Inl err, conn') \<Rightarrow> (Inl err, conn')
           | (Inr _, conn') \<Rightarrow> (Inr (), conn')))"

section \<open>The pool manager\<close>

record 'pw rift_config_auth =
  host :: "string option"
  port :: "int option"
  database :: "string option"
  user :: "string option"
  password :: "'pw option"

record 'pw rift_config =
  name :: string
  auth :: "'pw rift_config_auth option"
  conf_max :: "int option"
  initial_script :: "string option"

text \<open>
  The argument of \<^verbatim>\<open>new pg.Pool\<close>, and the pool object: its options and the listeners
  registered with \<^verbatim>\<open>pool.on\<close>. A listener is the closure's captured \<open>name\<close>; when the
  driver fires it is the driver's business.
\<close>

record 'pw pool_options =
  pool_host :: "string option"
  pool_port :: "int option"
  pool_database :: "string option"
  pool_user :: "string option"
  pool_password :: "'pw option"
  pool_max :: "int option"

datatype listener = LogNewConnection string | LogRemovedConnection string

record 'pw pg_pool =
  options :: "'pw pool_options"
  listeners :: "(string \<times> listener) list"

datatype console_event = ConsoleTime string | ConsoleTimeEnd string

datatype init_error = ConnectFailed thrown | ScriptFailed raised

text \<open>
  The module state: the exported variable \<open>pool\<close> (\<^verbatim>\<open>undefined\<close> until assigned), the
  number of pool objects constructed so far, the console, and the client the pool hands out.
\<close>

record ('pw, 'c) world =
  pool :: "'pw pg_pool option"
  pools_created :: nat
  console :: "console_event list"
  client :: "'c pool_client"

text \<open>
  \<^verbatim>\<open>new pg.Pool({...})\<close> followed by the two \<^verbatim>\<open>pool.on\<close> calls;
  \<^verbatim>\<open>auth?.host\<close> is \<^verbatim>\<open>undefined\<close> when \<open>auth\<close> is.
\<close>

definition new_pool :: "'pw rift_config \<Rightarrow> 'pw pg_pool" where
  "new_pool conf =
     \<lparr> options =
         \<lparr> pool_host = Option.bind (auth conf) host,
           pool_port = Option.bind (auth conf) port,
           pool_database = Option.bind (auth conf) database,
           pool_user = Option.bind (auth conf) user,
           pool_password = Option.bind (auth conf) password,
           pool_max = conf_max conf \<rparr>,
       listeners =
         [ (''connect'', LogNewConnection (name conf)),
           (''remove'', LogRemovedConnection (name conf)) ] \<rparr>"

text \<open>\<^verbatim>\<open>conn[Symbol.dispose]()\<close> at the end of the \<^verbatim>\<open>using\<close> scope.\<close>

definition dispose :: "('c, 'r) driver \<Rightarrow> 'c pool_client \<Rightarrow> 'c pool_client" where
  "dispose drv conn = conn\<lparr>backend := release drv (backend conn)\<rparr>"

text \<open>
  \<^verbatim>\<open>init_pool\<close>. An empty \<open>initial_script\<close> is falsy like an absent one. The script is
  submitted with the default parameter array \<^verbatim>\<open>[]\<close> of \<^verbatim>\<open>query\<close>.
\<close>

definition init_pool ::
  "(jsval list \<Rightarrow> string) \<Rightarrow> ('c, 'r) driver \<Rightarrow> 'pw rift_config \<Rightarrow> ('pw, 'c) world
     \<Rightarrow> (init_error + unit) \<times> ('pw, 'c) world" where
  "init_pool stringify drv conf w =
     (case pool w of
        Some _ \<Rightarrow> (Inr (), w)
      | None \<Rightarrow>
          (let w1 = w\<lparr>pool := Some (new_pool conf), pools_created := Suc (pools_created w)\<rparr>;
               label = ''['' @ name conf @ '' DB] Init''
           in case initial_script conf of
                None \<Rightarrow> (Inr (), w1)
              | Some script \<Rightarrow>
                  (if script = [] then (Inr (), w1)
                   else
                     (let w2 = w1\<lparr>console := console w1 @ [ConsoleTime label]\<rparr>
                      in case connect drv (backend (client w2)) of
                           (Some e, c') \<Rightarrow>
                             (Inl (ConnectFailed e), w2\<lparr>client := (client w2)\<lparr>backend := c'\<rparr>\<rparr>)
                         | (None, c') \<Rightarrow>
                             (case query stringify drv ((client w2)\<lparr>backend := c'\<rparr>) script [] of
                                (Inl err, conn') \<Rightarrow>
                                  (Inl (ScriptFailed err), w2\<lparr>client := dispose drv conn'\<rparr>)
                              | (Inr _, conn') \<Rightarrow>
                                  (Inr (),
                                   w2\<lparr>console := console w2 @ [ConsoleTimeEnd label],
                                      client := dispose drv conn'\<rparr>))))))"

section \<open>A driver for examples\<close>

text \<open>
  A driver that answers every statement with the same result and counts the statements it
  has run; connecting never fails.
\<close>

definition fixed_driver :: "thrown + 'r list \<Rightarrow> (nat, 'r) driver" where
  "fixed_driver res =
     \<lparr> run = (\<lambda>c q vals. (res, Suc c)), connect = (\<lambda>c. (None, c)), release = (\<lambda>c. c) \<rparr>"

section \<open>Auxiliary facts about the helpers\<close>

lemma mapi_nth: "mapi f xs = map (\<lambda>i. f (xs ! i) i) [0 ..< length xs]"
proof (rule nth_equalityI)
  show "length (mapi f xs) = length (map (\<lambda>i. f (xs ! i) i) [0 ..< length xs])"
    by (simp add: mapi_def)
next
  fix i assume "i < length (mapi f xs)"
  then have "i < length xs" by (simp add: mapi_def)
  then show "mapi f xs ! i = map (\<lambda>i. f (xs ! i) i) [0 ..< length xs] ! i"
    by (simp add: mapi_def nth_enumerate_eq)
qed

lemma insert_loop_eq:
  "insert_loop keys data r0 vals vps =
     (vals @ concat (map (\<lambda>row. map (row_get row) keys) data),
      vps @ map (\<lambda>r. ''('' @ join '', '' (map (\<lambda>c. ''$'' @ show_nat (r * length keys + c + 1)) [0 ..< length keys]) @ '')'')
                [r0 ..< r0 + length data])"
proof (induction data arbitrary: r0 vals vps)
  case Nil
  show ?case by simp
next
  case (Cons row rest)
  have "[r0 ..< r0 + length (row # rest)] = r0 # [Suc r0 ..< Suc r0 + length rest]"
    by (simp add: upt_rec)
  then show ?case
    by (simp add: Cons.IH mapi_nth Let_def)
qed

lemma concat_nth_uniform:
  "\<forall>xs \<in> set xss. length xs = k \<Longrightarrow> r < length xss \<Longrightarrow> c < k \<Longrightarrow>
     concat xss ! (r * k + c) = xss ! r ! c"
proof (induction xss arbitrary: r)
  case Nil
  then show ?case by simp
next
  case (Cons xs xss)
  show ?case
  proof (cases r)
    case 0
    with Cons.prems show ?thesis by (simp add: nth_append)
  next
    case (Suc r')
    with Cons.prems have "concat xss ! (r' * k + c) = xss ! r' ! c"
      by (intro Cons.IH) auto
    moreover have "Suc r' * k + c = k + (r' * k + c)" by simp
    ultimately show ?thesis using Cons.prems Suc
      by (simp add: nth_append del: mult_Suc)
  qed
qed

lemma length_concat_uniform:
  "\<forall>xs \<in> set xss. length xs = k \<Longrightarrow> length (concat xss) = length xss * k"
  by (induction xss) auto

lemma sublist_join: "x \<in> set xs \<Longrightarrow> sublist x (join sep xs)"
proof (induction sep xs rule: join.induct)
  case (1 sep)
  then show ?case by simp
next
  case (2 sep y)
  then show ?case by simp
next
  case (3 sep y z zs)
  show ?case
  proof (cases "x = y")
    case True
    then show ?thesis by simp
  next
    case False
    with 3 have "sublist x (join sep (z # zs))" by simp
    then obtain ps ss where "join sep (z # zs) = ps @ x @ ss"
      by (auto simp: sublist_def)
    then have "join sep (y # z # zs) = (y @ sep @ ps) @ x @ ss" by simp
    then show ?thesis unfolding sublist_def by blast
  qed
qed

lemma sublist_context: "sublist x y \<Longrightarrow> sublist x (ps @ y @ ss)"
proof -
  assume "sublist x y"
  then obtain p s where "y = p @ x @ s" by (auto simp: sublist_def)
  then have "ps @ y @ ss = (ps @ p) @ x @ (s @ ss)" by simp
  then show ?thesis unfolding sublist_def by blast
qed

lemma query_unfold:
  "query stringify drv conn q vals =
     (case conn_query drv conn q vals of
        (Inl e, conn') \<Rightarrow> (Inl (query_catch stringify e q vals), conn')
      | (Inr rows, conn') \<Rightarrow> (Inr rows, conn'))"
  by (simp add: query_def query_at_def split: prod.splits sum.splits)

lemma query_at_query:
  "query_at stringify drv h conn q values = (query stringify drv conn q (h values), h)"
  by (simp add: query_unfold query_at_def split: prod.splits sum.splits)

lemma query_sent: "sent (snd (query stringify drv conn q vals)) = sent conn @ [(q, vals)]"
  by (cases "run drv (backend conn) q vals")
     (simp add: query_unfold conn_query_def split: sum.splits)

lemma query_backend:
  "backend (snd (query stringify drv conn q vals)) = snd (run drv (backend conn) q vals)"
  by (cases "run drv (backend conn) q vals")
     (simp add: query_unfold conn_query_def split: sum.splits)

lemma query_rows:
  "fst (run drv (backend conn) q vals) = Inr rows \<Longrightarrow> fst (query stringify drv conn q vals) = Inr rows"
  by (cases "run drv (backend conn) q vals") (simp add: query_unfold conn_query_def)

lemma query_failure:
  "fst (run drv (backend conn) q vals) = Inl e \<Longrightarrow>
     fst (query stringify drv conn q vals) = Inl (query_catch stringify e q vals)"
  by (cases "run drv (backend conn) q vals") (simp add: query_unfold conn_query_def)

lemma nth_object_values: "i < length obj \<Longrightarrow> object_values obj ! i = snd (obj ! i)"
  by (simp add: object_values_def)

lemma update_submits:
  "sent (snd (update stringify drv conn table where_obj data)) =
     sent conn @ [update_statement table where_obj data]"
proof (cases "update_statement table where_obj data")
  case (Pair queryText vals)
  have "sent (snd (query stringify drv conn queryText vals)) = sent conn @ [(queryText, vals)]"
    by (rule query_sent)
  then show ?thesis
    by (cases "query stringify drv conn queryText vals")
       (auto simp: update_def Pair split: sum.splits list.splits)
qed

lemma remove_submits:
  "sent (snd (remove stringify drv conn table where_obj)) =
     sent conn @ [remove_statement table where_obj]"
proof (cases "remove_statement table where_obj")
  case (Pair queryText vals)
  have "sent (snd (query stringify drv conn queryText vals)) = sent conn @ [(queryText, vals)]"
    by (rule query_sent)
  then show ?thesis
    by (cases "query stringify drv conn queryText vals")
       (auto simp: remove_def Pair split: sum.splits)
qed

lemma init_pool_existing: "pool w = Some p \<Longrightarrow> init_pool stringify drv conf w = (Inr (), w)"
  by (simp add: init_pool_def)

lemma init_pool_fresh:
  "pool w = None \<Longrightarrow>
     pool (snd (init_pool stringify drv conf w)) = Some (new_pool conf)
     \<and> pools_created (snd (init_pool stringify drv conf w)) = Suc (pools_created w)"
  by (simp add: init_pool_def Let_def split: option.splits prod.splits sum.splits)

section \<open>Insert: parameters and placeholders\<close>

text \<open>
  Claim C5. \<^verbatim>\<open>insert\<close> with an empty row sequence returns the empty sequence at once: the
  connection comes back exactly as it was (nothing submitted, the driver's state untouched),
  whatever the driver, the table and the conflict columns are.
\<close>

theorem insert_empty_is_noop:
  "insert stringify drv conn table [] conflict = (Inr [], conn)"
  by (simp add: insert_def)

text \<open>
  Claim C1. For a non-empty \<open>data\<close> of \<open>n\<close> rows whose first row has \<open>k\<close> keys, \<^verbatim>\<open>insert\<close>
  hands \<^verbatim>\<open>query\<close> a parameter array that is the rows' values flattened in row order, each
  row read in the order of the first row's keys; it has exactly \<open>n * k\<close> entries, the entry at
  index \<open>r * k + c\<close> is row \<open>r\<close>'s value for column \<open>c\<close>, and the statement's \<^verbatim>\<open>VALUES\<close> list
  writes \<^verbatim>\<open>$<r * k + c + 1>\<close> for row \<open>r\<close> and column \<open>c\<close>, columns joined by a comma and a
  space inside parentheses, rows likewise.
\<close>

theorem insert_placeholder_numbering:
  "(let data = row0 # rest;
        keys = object_keys row0;
        k = length keys;
        n = length data;
        (queryText, vals) = insert_statement table row0 data conflict
    in insert stringify drv conn table data conflict = query stringify drv conn queryText vals
       \<and> vals = concat (map (\<lambda>row. map (row_get row) keys) data)
       \<and> length vals = n * k
       \<and> (\<forall>r < n. \<forall>c < k. vals ! (r * k + c) = row_get (data ! r) (keys ! c))
       \<and> queryText =
             ''\<newline>    INSERT INTO '' @ table @ '' ('' @ join '', '' keys @ '')''
             @ ''\<newline>    VALUES ''
             @ join '', ''
                 (map (\<lambda>r. ''('' @ join '', '' (map (\<lambda>c. ''$'' @ show_nat (r * k + c + 1)) [0 ..< k]) @ '')'')
                    [0 ..< n])
             @ ''\<newline>    '' @ updateClause keys conflict
             @ ''\<newline>    RETURNING *;\<newline>  '')"
proof -
  let ?keys = "object_keys row0"
  let ?data = "row0 # rest"
  let ?xss = "map (\<lambda>row. map (row_get row) ?keys) ?data"
  have uniform: "\<forall>xs \<in> set ?xss. length xs = length ?keys"
    by auto
  have len: "length (concat ?xss) = length ?data * length ?keys"
    using length_concat_uniform [OF uniform] by simp
  have nth: "concat ?xss ! (r * length ?keys + c) = row_get (?data ! r) (?keys ! c)"
    if "r < length ?data" "c < length ?keys" for r c
  proof -
    have "concat ?xss ! (r * length ?keys + c) = ?xss ! r ! c"
      using that by (intro concat_nth_uniform [OF uniform]) simp_all
    also have "\<dots> = row_get (?data ! r) (?keys ! c)"
      using that by (simp only: nth_map length_map)
    finally show ?thesis .
  qed
  show ?thesis
    unfolding Let_def insert_statement_def insert_def insert_loop_eq
    using len nth by (simp del: upt_Suc)
qed

theorem insert_placeholder_numbering_witness:
  "(let row1 = [(''id'', JNum 1), (''value'', JStr ''a'')];
        row2 = [(''id'', JNum 2), (''value'', JStr ''b'')];
        (queryText, vals) = insert_statement ''list'' row1 [row1, row2] None
    in queryText =
         ''\<newline>    INSERT INTO list (id, value)\<newline>    VALUES ($1, $2), ($3, $4)\<newline>    \<newline>    RETURNING *;\<newline>  ''
       \<and> vals = [JNum 1, JStr ''a'', JNum 2, JStr ''b'']
       \<and> length vals = 2 * 2
       \<and> (1::nat) < 2 \<and> (0::nat) < 2 \<and> vals ! (1 * 2 + 0) = JNum 2)"
proof -
  have stmt:
    "insert_statement ''list'' [(''id'', JNum 1), (''value'', JStr ''a'')]
       [[(''id'', JNum 1), (''value'', JStr ''a'')], [(''id'', JNum 2), (''value'', JStr ''b'')]] None =
     (''\<newline>    INSERT INTO list (id, value)\<newline>    VALUES ($1, $2), ($3, $4)\<newline>    \<newline>    RETURNING *;\<newline>  '',
      [JNum 1, JStr ''a'', JNum 2, JStr ''b''])"
    by code_simp
  show ?thesis
    using insert_placeholder_numbering
      [of "[(''id'', JNum 1), (''value'', JStr ''a'')]" "[[(''id'', JNum 2), (''value'', JStr ''b'')]]"
          "''list''" None]
    unfolding Let_def stmt by simp
qed

text \<open>
  Claim C2. A call of \<^verbatim>\<open>insert\<close> on a non-empty \<open>data\<close> hands \<^verbatim>\<open>query\<close> the statement
  described here, and that statement is what reaches the connection.
  With a present, non-empty \<open>conflict\<close> list the statement carries, after the
  \<^verbatim>\<open>VALUES\<close> list, \<^verbatim>\<open>ON CONFLICT (<conflict columns>) DO UPDATE SET\<close> followed by
  \<^verbatim>\<open>col = EXCLUDED.col\<close> for every key of the first row, so each of these assignments occurs
  in the statement; with an absent or empty list that line of the statement is empty; and
  in every case the statement's last clause is \<^verbatim>\<open>RETURNING *;\<close> (followed only by the
  template's line break and indentation).
\<close>

theorem insert_conflict_clause:
  "(let keys = object_keys row0;
        queryText = fst (insert_statement table row0 (row0 # rest) conflict);
        vals = snd (insert_statement table row0 (row0 # rest) conflict);
        intro = ''\<newline>    INSERT INTO '' @ table @ '' ('' @ join '', '' keys @ '')''
                @ ''\<newline>    VALUES '' @ join '', '' (snd (insert_loop keys (row0 # rest) 0 [] []))
    in insert stringify drv conn table (row0 # rest) conflict = query stringify drv conn queryText vals
       \<and> sent (snd (insert stringify drv conn table (row0 # rest) conflict)) =
             sent conn @ [(queryText, vals)]
       \<and> (case conflict of
          Some (c # cs) \<Rightarrow>
            queryText =
              intro @ ''\<newline>    ''
              @ ''ON CONFLICT ('' @ join '', '' (c # cs) @ '') DO UPDATE SET ''
              @ join '', '' (map (\<lambda>k. k @ '' = EXCLUDED.'' @ k) keys)
              @ ''\<newline>    RETURNING *;\<newline>  ''
            \<and> (\<forall>k \<in> set keys. sublist (k @ '' = EXCLUDED.'' @ k) queryText)
        | _ \<Rightarrow> queryText = intro @ ''\<newline>    '' @ ''\<newline>    RETURNING *;\<newline>  '')
       \<and> suffix ''RETURNING *;\<newline>  '' queryText)"
proof -
  let ?keys = "object_keys row0"
  let ?q = "fst (insert_statement table row0 (row0 # rest) conflict)"
  let ?intro = "''\<newline>    INSERT INTO '' @ table @ '' ('' @ join '', '' ?keys @ '')''
                @ ''\<newline>    VALUES '' @ join '', '' (snd (insert_loop ?keys (row0 # rest) 0 [] []))"
  let ?assignments = "join '', '' (map (\<lambda>k. k @ '' = EXCLUDED.'' @ k) ?keys)"
  have call: "insert stringify drv conn table (row0 # rest) conflict =
                query stringify drv conn ?q (snd (insert_statement table row0 (row0 # rest) conflict))"
    by (simp add: insert_def split: prod.splits)
  have submitted: "sent (snd (insert stringify drv conn table (row0 # rest) conflict)) =
                     sent conn @ [(?q, snd (insert_statement table row0 (row0 # rest) conflict))]"
    unfolding call by (rule query_sent)
  have shape: "?q = ?intro @ ''\<newline>    '' @ updateClause ?keys conflict @ ''\<newline>    RETURNING *;\<newline>  ''"
    by (simp add: insert_statement_def Let_def split: prod.splits)
  have tail: "suffix ''RETURNING *;\<newline>  '' ?q"
    unfolding shape by (simp add: suffix_def)
  have plain: "?q = ?intro @ ''\<newline>    '' @ ''\<newline>    RETURNING *;\<newline>  ''"
    if "conflict = None \<or> conflict = Some []"
    using that unfolding shape by (auto simp: updateClause_def)
  have upsert:
    "?q = ?intro @ ''\<newline>    ''
          @ ''ON CONFLICT ('' @ join '', '' (c # cs) @ '') DO UPDATE SET '' @ ?assignments
          @ ''\<newline>    RETURNING *;\<newline>  ''"
    if "conflict = Some (c # cs)" for c cs
    using that unfolding shape by (simp add: updateClause_def)
  have assigned: "sublist (k @ '' = EXCLUDED.'' @ k) ?q"
    if "conflict = Some (c # cs)" and "k \<in> set ?keys" for c cs k
  proof -
    have "sublist (k @ '' = EXCLUDED.'' @ k) ?assignments"
      using that(2) by (intro sublist_join) simp
    then have "sublist (k @ '' = EXCLUDED.'' @ k)
        ((?intro @ ''\<newline>    '' @ ''ON CONFLICT ('' @ join '', '' (c # cs) @ '') DO UPDATE SET '')
          @ ?assignments @ ''\<newline>    RETURNING *;\<newline>  '')"
      by (rule sublist_context)
    then show ?thesis
      unfolding upsert [OF that(1)] by (simp only: append_assoc)
  qed
  show ?thesis
  proof (cases conflict)
    case None
    with plain tail call submitted show ?thesis by (simp add: Let_def)
  next
    case (Some cols)
    show ?thesis
    proof (cases cols)
      case Nil
      with Some plain tail call submitted show ?thesis by (simp add: Let_def)
    next
      case (Cons c cs)
      with Some have conflict: "conflict = Some (c # cs)" by simp
      show ?thesis
        unfolding Let_def conflict option.case list.case
        using upsert [OF conflict] assigned [OF conflict] tail call submitted
        unfolding conflict by blast
    qed
  qed
qed

theorem insert_conflict_clause_witness:
  "(let row1 = [(''id'', JNum 1), (''value'', JStr ''a'')];
        row2 = [(''id'', JNum 2), (''value'', JStr ''b'')];
        queryText = fst (insert_statement ''list'' row1 [row1, row2] (Some [''id'']));
        conn = \<lparr>backend = 0, sent = []\<rparr>;
        drv = fixed_driver (Inr [row1, row2])
    in queryText =
         ''\<newline>    INSERT INTO list (id, value)\<newline>    VALUES ($1, $2), ($3, $4)\<newline>    ON CONFLICT (id) DO UPDATE SET id = EXCLUDED.id, value = EXCLUDED.value\<newline>    RETURNING *;\<newline>  ''
       \<and> sent (snd (insert (\<lambda>_. ''[1,\"a\",2,\"b\"]'') drv conn ''list'' [row1, row2] (Some [''id'']))) =
             [(queryText, [JNum 1, JStr ''a'', JNum 2, JStr ''b''])]
       \<and> ''value'' \<in> set (object_keys row1)
       \<and> sublist ''value = EXCLUDED.value'' queryText
       \<and> suffix ''RETURNING *;\<newline>  '' queryText)"
proof -
  have stmt:
    "fst (insert_statement ''list'' [(''id'', JNum 1), (''value'', JStr ''a'')]
       [[(''id'', JNum 1), (''value'', JStr ''a'')], [(''id'', JNum 2), (''value'', JStr ''b'')]]
       (Some [''id''])) =
     ''\<newline>    INSERT INTO list (id, value)\<newline>    VALUES ($1, $2), ($3, $4)\<newline>    ON CONFLICT (id) DO UPDATE SET id = EXCLUDED.id, value = EXCLUDED.value\<newline>    RETURNING *;\<newline>  ''"
    by code_simp
  have params:
    "snd (insert_statement ''list'' [(''id'', JNum 1), (''value'', JStr ''a'')]
       [[(''id'', JNum 1), (''value'', JStr ''a'')], [(''id'', JNum 2), (''value'', JStr ''b'')]]
       (Some [''id''])) =
     [JNum 1, JStr ''a'', JNum 2, JStr ''b'']"
    by code_simp
  have key: "''value'' \<in> set (object_keys [(''id'', JNum 1), (''value'', JStr ''a'')])"
    by (simp add: object_keys_def)
  show ?thesis
    using insert_conflict_clause
      [of "[(''id'', JNum 1), (''value'', JStr ''a'')]" "''list''"
          "[[(''id'', JNum 2), (''value'', JStr ''b'')]]" "Some [''id'']"
          "\<lambda>_. ''[1,\"a\",2,\"b\"]''"
          "fixed_driver (Inr [[(''id'', JNum 1), (''value'', JStr ''a'')], [(''id'', JNum 2), (''value'', JStr ''b'')]])"
          "\<lparr>backend = 0, sent = []\<rparr>"]
      key
    unfolding Let_def stmt params option.case list.case
    by (auto simp del: set_simps)
qed

section \<open>The query executor: one submission, rows as reported, errors wrapped\<close>

text \<open>
  Claim C9. One call of \<^verbatim>\<open>query\<close> on a parameter array held by the caller leaves the store
  as it was, so the caller's array has the same contents after the call as before it,
  whether the driver answers with rows or throws. The call submits exactly one statement:
  the connection's log grows by the single entry made of the caller's statement text and
  the array's contents, and the driver's state advances by that one \<open>run\<close> step (so nothing
  is submitted a second time). When the driver answers with rows, \<^verbatim>\<open>query\<close> returns that
  very list, in the driver's order. The outcome is that of \<open>query\<close> on the array's contents.
\<close>

theorem query_submits_once_returns_rows:
  "(let ((outcome, conn'), h') = query_at stringify drv h conn q values
    in h' = h
       \<and> sent conn' = sent conn @ [(q, h values)]
       \<and> backend conn' = snd (run drv (backend conn) q (h values))
       \<and> (\<forall>rows. fst (run drv (backend conn) q (h values)) = Inr rows \<longrightarrow> outcome = Inr rows)
       \<and> query stringify drv conn q (h values) = (outcome, conn'))"
proof -
  have at: "query_at stringify drv h conn q values = (query stringify drv conn q (h values), h)"
    by (rule query_at_query)
  obtain outcome conn' where out: "query stringify drv conn q (h values) = (outcome, conn')"
    by (cases "query stringify drv conn q (h values)")
  have log: "sent conn' = sent conn @ [(q, h values)]"
    using query_sent [of stringify drv conn q "h values"] by (simp add: out)
  have step: "backend conn' = snd (run drv (backend conn) q (h values))"
    using query_backend [of stringify drv conn q "h values"] by (simp add: out)
  have rows: "outcome = Inr rows" if "fst (run drv (backend conn) q (h values)) = Inr rows" for rows
    using query_rows [OF that, of stringify] by (simp add: out)
  show ?thesis
    unfolding at out Let_def prod.case using log step rows by blast
qed

theorem query_submits_once_returns_rows_witness:
  "(let h = (\<lambda>r. if r = 3 then [JArr [JNum 1, JNum 2]] else []);
        conn = \<lparr>backend = 0, sent = []\<rparr>;
        q = ''select * from list where id = any($1)'';
        answering = fixed_driver (Inr [[(''id'', JNum 2)], [(''id'', JNum 1)]]);
        failing = fixed_driver (Inl (OtherError ''Connection terminated unexpectedly''));
        ((outcome, conn'), h') = query_at (\<lambda>_. ''[[1,2]]'') answering h conn q 3;
        ((outcome2, conn2), h2) = query_at (\<lambda>_. ''[[1,2]]'') failing h conn q 3
    in fst (run answering (backend conn) q (h 3)) = Inr [[(''id'', JNum 2)], [(''id'', JNum 1)]]
       \<and> outcome = Inr [[(''id'', JNum 2)], [(''id'', JNum 1)]]
       \<and> h' 3 = [JArr [JNum 1, JNum 2]]
       \<and> h' = h
       \<and> sent conn' = [(q, [JArr [JNum 1, JNum 2]])]
       \<and> backend conn' = 1
       \<and> outcome2 = (Inl (RiftError ''Query failed: Connection terminated unexpectedly'') :: raised + rift_object list)
       \<and> h2 = h
       \<and> sent conn2 = [(q, [JArr [JNum 1, JNum 2]])]
       \<and> backend conn2 = 1)"
proof -
  let ?h = "\<lambda>r::nat. if r = 3 then [JArr [JNum 1, JNum 2]] else []"
  let ?conn = "\<lparr>backend = 0 :: nat, sent = []\<rparr>"
  let ?q = "''select * from list where id = any($1)''"
  let ?answering = "fixed_driver (Inr [[(''id'', JNum 2)], [(''id'', JNum 1)]]) :: (nat, rift_object) driver"
  let ?failing = "fixed_driver (Inl (OtherError ''Connection terminated unexpectedly'')) :: (nat, rift_object) driver"
  have failed: "fst (query (\<lambda>_. ''[[1,2]]'') ?failing ?conn ?q (?h 3)) =
                  Inl (RiftError ''Query failed: Connection terminated unexpectedly'')"
    by (simp add: query_unfold conn_query_def fixed_driver_def query_catch_def)
  show ?thesis
    using query_submits_once_returns_rows [of "\<lambda>_. ''[[1,2]]''" ?answering ?h ?conn ?q 3]
      query_submits_once_returns_rows [of "\<lambda>_. ''[[1,2]]''" ?failing ?h ?conn ?q 3]
      failed
    by (simp add: fixed_driver_def Let_def split: prod.splits)
qed

text \<open>
  Claim C4. The claim fails on the code for a parameter array that holds a \<^verbatim>\<open>bigint\<close>:
  when the driver throws a \<^verbatim>\<open>pg.DatabaseError\<close> (here a uniqueness violation on inserting
  the parameter \<^verbatim>\<open>1n\<close>), \<^verbatim>\<open>JSON.stringify(values)\<close> throws inside the \<^verbatim>\<open>catch\<close> block, and
  \<^verbatim>\<open>query\<close> raises that \<^verbatim>\<open>TypeError\<close>. No \<^verbatim>\<open>RiftError\<close> is raised, so no message with the
  summary, code, detail, hint, position, statement text and parameters exists, against the
  claim and against the function's own \<^verbatim>\<open>@throws {RiftError}\<close>.
\<close>

theorem query_bigint_parameter_raises_type_error:
  "(let dup = \<lparr>message = ''duplicate key value violates unique constraint'',
                 code = Some ''23505'', detail = Some ''Key (id)=(1) already exists.'',
                 hint = None, position = None\<rparr>;
        drv = fixed_driver (Inl (DatabaseError dup)) :: (nat, rift_object) driver;
        conn = \<lparr>backend = 0, sent = []\<rparr>;
        q = ''insert into list (id) values ($1)'';
        vals = [JBigInt 1];
        outcome = fst (query stringify drv conn q vals)
    in fst (run drv (backend conn) q vals) = Inl (DatabaseError dup)
       \<and> outcome = Inl TypeError
       \<and> (\<nexists>msg. outcome = Inl (RiftError msg)))"
  by (simp add: Let_def query_unfold conn_query_def fixed_driver_def query_catch_def
        json_stringify_def)

text \<open>
  Where the parameter array holds no \<^verbatim>\<open>bigint\<close>, the messages are as follows. For a
  \<^verbatim>\<open>pg.DatabaseError\<close>, line by line: \<^verbatim>\<open>Database Error: <message>\<close>, an empty line,
  \<^verbatim>\<open>Code:\<close>, \<^verbatim>\<open>Detail:\<close>, \<^verbatim>\<open>Hint:\<close> and \<^verbatim>\<open>Position:\<close> (each with the field, or \<^verbatim>\<open>N/A\<close>
  when the field is absent), \<^verbatim>\<open>Query:\<close> with the statement text, and \<^verbatim>\<open>Values:\<close> with the
  serialised parameter array. For any other \<^verbatim>\<open>Error\<close>, the fixed label \<^verbatim>\<open>Query failed: \<close>
  followed by that error's message; for a thrown value that is not an \<^verbatim>\<open>Error\<close>,
  \<^verbatim>\<open>Query failed: unknown error\<close>. The last two hold for every parameter array.
\<close>

lemma query_error_messages_serialisable:
  assumes "list_all serialisable vals"
  shows "(\<forall>d. fst (run drv (backend conn) q vals) = Inl (DatabaseError d) \<longrightarrow>
            fst (query stringify drv conn q vals) =
              Inl (RiftError
                    (''Database Error: '' @ message d @ ''\<newline>''
                     @ ''\<newline>''
                     @ ''Code: '' @ (case code d of None \<Rightarrow> ''N/A'' | Some s \<Rightarrow> s) @ ''\<newline>''
                     @ ''Detail: '' @ (case detail d of None \<Rightarrow> ''N/A'' | Some s \<Rightarrow> s) @ ''\<newline>''
                     @ ''Hint: '' @ (case hint d of None \<Rightarrow> ''N/A'' | Some s \<Rightarrow> s) @ ''\<newline>''
                     @ ''Position: '' @ (case position d of None \<Rightarrow> ''N/A'' | Some s \<Rightarrow> s) @ ''\<newline>''
                     @ ''Query: '' @ q @ ''\<newline>''
                     @ ''Values: '' @ stringify vals)))
         \<and> (\<forall>m. fst (run drv (backend conn) q vals) = Inl (OtherError m) \<longrightarrow>
                fst (query stringify drv conn q vals) = Inl (RiftError (''Query failed: '' @ m)))
         \<and> (fst (run drv (backend conn) q vals) = Inl NotAnError \<longrightarrow>
                fst (query stringify drv conn q vals) = Inl (RiftError ''Query failed: unknown error''))"
proof (intro conjI allI impI)
  fix d assume "fst (run drv (backend conn) q vals) = Inl (DatabaseError d)"
  from query_failure [OF this, of stringify] assms
  show "fst (query stringify drv conn q vals) =
          Inl (RiftError
                (''Database Error: '' @ message d @ ''\<newline>''
                 @ ''\<newline>''
                 @ ''Code: '' @ (case code d of None \<Rightarrow> ''N/A'' | Some s \<Rightarrow> s) @ ''\<newline>''
                 @ ''Detail: '' @ (case detail d of None \<Rightarrow> ''N/A'' | Some s \<Rightarrow> s) @ ''\<newline>''
                 @ ''Hint: '' @ (case hint d of None \<Rightarrow> ''N/A'' | Some s \<Rightarrow> s) @ ''\<newline>''
                 @ ''Position: '' @ (case position d of None \<Rightarrow> ''N/A'' | Some s \<Rightarrow> s) @ ''\<newline>''
                 @ ''Query: '' @ q @ ''\<newline>''
                 @ ''Values: '' @ stringify vals))"
    by (simp add: query_catch_def json_stringify_def database_error_message_def or_na_def)
next
  fix m assume "fst (run drv (backend conn) q vals) = Inl (OtherError m)"
  from query_failure [OF this, of stringify]
  show "fst (query stringify drv conn q vals) = Inl (RiftError (''Query failed: '' @ m))"
    by (simp add: query_catch_def)
next
  assume "fst (run drv (backend conn) q vals) = Inl NotAnError"
  from query_failure [OF this, of stringify]
  show "fst (query stringify drv conn q vals) = Inl (RiftError ''Query failed: unknown error'')"
    by (simp add: query_catch_def)
qed

section \<open>Update and delete: statements, parameters and the zero-row cases\<close>

text \<open>
  Claim C6. For a \<open>data\<close> mapping of \<open>N\<close> keys and a \<open>where\<close> mapping of \<open>M\<close> keys, the
  statement \<^verbatim>\<open>update\<close> submits is \<^verbatim>\<open>update <table> set\<close>, the data keys as
  \<^verbatim>\<open>key = $1\<close> .. \<^verbatim>\<open>key = $N\<close> joined by a comma and a space, \<^verbatim>\<open>where\<close>, the where keys as
  \<^verbatim>\<open>key = $(N+1)\<close> .. \<^verbatim>\<open>key = $(N+M)\<close> joined by \<^verbatim>\<open>and\<close>, and \<^verbatim>\<open>returning *\<close> at the end.
  The parameter array is the data values followed by the where values, so the value bound
  to \<^verbatim>\<open>$(i+1)\<close> is the \<open>i\<close>-th data value and the value bound to \<^verbatim>\<open>$(N+j+1)\<close> is the \<open>j\<close>-th
  where value; this text and this array are what reaches the connection.
\<close>

theorem update_statement_shape:
  "(let keys = object_keys data;
        where_keys = object_keys where_obj;
        N = length keys;
        M = length where_keys;
        (queryText, vals) = update_statement table where_obj data
    in queryText =
         ''update '' @ table @ '' set ''
         @ join '', '' (map (\<lambda>i. keys ! i @ '' = $'' @ show_nat (i + 1)) [0 ..< N])
         @ '' where ''
         @ join '' and '' (map (\<lambda>j. where_keys ! j @ '' = $'' @ show_nat (N + j + 1)) [0 ..< M])
         @ '' returning *''
       \<and> vals = object_values data @ object_values where_obj
       \<and> length vals = N + M
       \<and> (\<forall>i < N. vals ! i = snd (data ! i))
       \<and> (\<forall>j < M. vals ! (N + j) = snd (where_obj ! j))
       \<and> sent (snd (update stringify drv conn table where_obj data)) = sent conn @ [(queryText, vals)])"
proof -
  have lens: "length (object_keys data) = length data" "length (object_keys where_obj) = length where_obj"
    "length (object_values data) = length data" "length (object_values where_obj) = length where_obj"
    by (simp_all add: object_keys_def object_values_def)
  have stmt: "update_statement table where_obj data =
     (''update '' @ table @ '' set ''
         @ join '', '' (map (\<lambda>i. object_keys data ! i @ '' = $'' @ show_nat (i + 1)) [0 ..< length data])
         @ '' where ''
         @ join '' and '' (map (\<lambda>j. object_keys where_obj ! j @ '' = $'' @ show_nat (length data + j + 1))
                            [0 ..< length where_obj])
         @ '' returning *'',
      object_values data @ object_values where_obj)"
    by (simp add: update_statement_def Let_def mapi_nth lens add.commute)
  show ?thesis
    unfolding Let_def update_submits stmt
    by (simp add: lens nth_append nth_object_values)
qed

theorem update_statement_shape_witness:
  "(let (queryText, vals) = update_statement ''list'' [(''id'', JNum 1)] [(''value'', JStr ''z'')]
    in queryText = ''update list set value = $1 where id = $2 returning *''
       \<and> vals = [JStr ''z'', JNum 1]
       \<and> (0::nat) < length (object_keys [(''value'', JStr ''z'')])
       \<and> vals ! 0 = JStr ''z''
       \<and> (0::nat) < length (object_keys [(''id'', JNum 1)])
       \<and> vals ! (1 + 0) = JNum 1)"
proof -
  have stmt:
    "update_statement ''list'' [(''id'', JNum 1)] [(''value'', JStr ''z'')] =
       (''update list set value = $1 where id = $2 returning *'', [JStr ''z'', JNum 1])"
    by code_simp
  show ?thesis
    using update_statement_shape [of "[(''value'', JStr ''z'')]" "[(''id'', JNum 1)]" "''list''"]
    unfolding Let_def stmt by (simp add: object_keys_def)
qed

text \<open>
  Claim C3. When the driver answers the statement of \<^verbatim>\<open>update\<close> with an empty row list,
  \<^verbatim>\<open>update\<close> raises the \<^verbatim>\<open>RiftError\<close> \<^verbatim>\<open>Update failed: no rows affected\<close>; when it answers
  with a non-empty row list, \<^verbatim>\<open>update\<close> returns its first row and raises nothing. A list of
  exactly one row is the case \<open>rs = []\<close>.
\<close>

theorem update_zero_rows_raises:
  "(let (queryText, vals) = update_statement table where_obj data;
        answer = fst (run drv (backend conn) queryText vals);
        outcome = fst (update stringify drv conn table where_obj data)
    in (answer = Inr [] \<longrightarrow> outcome = Inl (RiftError ''Update failed: no rows affected''))
       \<and> (\<forall>r rs. answer = Inr (r # rs) \<longrightarrow> outcome = Inr r))"
proof (cases "update_statement table where_obj data")
  case (Pair queryText vals)
  have rows: "fst (query stringify drv conn queryText vals) = Inr rows"
    if "fst (run drv (backend conn) queryText vals) = Inr rows" for rows
    using that by (rule query_rows)
  have none: "fst (update stringify drv conn table where_obj data) =
                Inl (RiftError ''Update failed: no rows affected'')"
    if "fst (run drv (backend conn) queryText vals) = Inr []"
    using rows [OF that]
    by (cases "query stringify drv conn queryText vals") (simp add: update_def Pair)
  have first: "fst (update stringify drv conn table where_obj data) = Inr r"
    if "fst (run drv (backend conn) queryText vals) = Inr (r # rs)" for r rs
    using rows [OF that]
    by (cases "query stringify drv conn queryText vals") (simp add: update_def Pair)
  show ?thesis
    unfolding Let_def Pair prod.case using none first by blast
qed

theorem update_zero_rows_raises_witness:
  "(let table = ''list'';
        where_obj = [(''id'', JNum 1)];
        data = [(''value'', JStr ''z'')];
        conn = \<lparr>backend = 0, sent = []\<rparr>;
        stringify = (\<lambda>_. ''[\"z\",1]'');
        no_match = fixed_driver (Inr []);
        one_match = fixed_driver (Inr [[(''id'', JNum 1), (''value'', JStr ''z'')]]);
        (queryText, vals) = update_statement table where_obj data
    in fst (run no_match (backend conn) queryText vals) = (Inr [] :: thrown + rift_object list)
       \<and> fst (update stringify no_match conn table where_obj data) =
             (Inl (RiftError ''Update failed: no rows affected'') :: raised + rift_object)
       \<and> fst (run one_match (backend conn) queryText vals) = Inr [[(''id'', JNum 1), (''value'', JStr ''z'')]]
       \<and> fst (update stringify one_match conn table where_obj data) =
             Inr [(''id'', JNum 1), (''value'', JStr ''z'')])"
proof -
  note no_match =
    update_zero_rows_raises
      [of "''list''" "[(''id'', JNum 1)]" "[(''value'', JStr ''z'')]"
          "fixed_driver (Inr []) :: (nat, rift_object) driver" "\<lparr>backend = 0, sent = []\<rparr>"
          "\<lambda>_. ''[\"z\",1]''"]
  note one_match =
    update_zero_rows_raises
      [of "''list''" "[(''id'', JNum 1)]" "[(''value'', JStr ''z'')]"
          "fixed_driver (Inr [[(''id'', JNum 1), (''value'', JStr ''z'')]])" "\<lparr>backend = 0, sent = []\<rparr>"
          "\<lambda>_. ''[\"z\",1]''"]
  show ?thesis
    using no_match one_match
    by (simp add: fixed_driver_def Let_def split: prod.splits)
qed

text \<open>
  Claim C8. The statement \<^verbatim>\<open>remove\<close> submits is \<^verbatim>\<open>delete from <table> where\<close> followed by
  the where keys as \<^verbatim>\<open>key = $1\<close> .. \<^verbatim>\<open>key = $M\<close> joined by \<^verbatim>\<open>and\<close>, and nothing after it;
  the parameter array is the where values in the same order. Whenever the driver answers
  with a row list, the empty one included, \<^verbatim>\<open>remove\<close> completes with no value and no error.
\<close>

theorem remove_statement_and_zero_rows:
  "(let keys = object_keys where_obj;
        M = length keys;
        (queryText, vals) = remove_statement table where_obj
    in queryText =
         ''delete from '' @ table @ '' where ''
         @ join '' and '' (map (\<lambda>i. keys ! i @ '' = $'' @ show_nat (i + 1)) [0 ..< M])
       \<and> vals = object_values where_obj
       \<and> (\<forall>i < M. vals ! i = snd (where_obj ! i))
       \<and> sent (snd (remove stringify drv conn table where_obj)) = sent conn @ [(queryText, vals)]
       \<and> (\<forall>rows. fst (run drv (backend conn) queryText vals) = Inr rows \<longrightarrow>
              fst (remove stringify drv conn table where_obj) = Inr ()))"
proof -
  have len: "length (object_keys where_obj) = length where_obj"
    by (simp add: object_keys_def)
  have stmt: "remove_statement table where_obj =
     (''delete from '' @ table @ '' where ''
         @ join '' and '' (map (\<lambda>i. object_keys where_obj ! i @ '' = $'' @ show_nat (i + 1))
                            [0 ..< length where_obj]),
      object_values where_obj)"
    by (simp add: remove_statement_def Let_def mapi_nth len)
  have completes: "fst (remove stringify drv conn table where_obj) = Inr ()"
    if "fst (run drv (backend conn) queryText vals) = Inr rows"
      and "remove_statement table where_obj = (queryText, vals)" for queryText vals rows
    using query_rows [OF that(1), of stringify]
    by (cases "query stringify drv conn queryText vals") (simp add: remove_def that(2))
  have bound: "\<forall>i < length (object_keys where_obj). object_values where_obj ! i = snd (where_obj ! i)"
    by (simp add: len nth_object_values)
  show ?thesis
    unfolding Let_def remove_submits
    using completes [OF _ stmt] bound
    unfolding stmt prod.case len by blast
qed

theorem remove_statement_and_zero_rows_witness:
  "(let table = ''list'';
        where_obj = [(''id'', JNum 1)];
        conn = \<lparr>backend = 0, sent = []\<rparr>;
        no_match = fixed_driver (Inr []);
        (queryText, vals) = remove_statement table where_obj
    in queryText = ''delete from list where id = $1''
       \<and> vals = [JNum 1]
       \<and> (0::nat) < length (object_keys where_obj)
       \<and> vals ! 0 = JNum 1
       \<and> fst (run no_match (backend conn) queryText vals) = (Inr [] :: thrown + rift_object list)
       \<and> fst (remove (\<lambda>_. ''[1]'') no_match conn table where_obj) = Inr ()
       \<and> sent (snd (remove (\<lambda>_. ''[1]'') no_match conn table where_obj)) = [(queryText, vals)])"
proof -
  have stmt: "remove_statement ''list'' [(''id'', JNum 1)] = (''delete from list where id = $1'', [JNum 1])"
    by code_simp
  show ?thesis
    using remove_statement_and_zero_rows
      [of "[(''id'', JNum 1)]" "''list''" "\<lambda>_. ''[1]''"
          "fixed_driver (Inr []) :: (nat, rift_object) driver" "\<lparr>backend = 0, sent = []\<rparr>"]
    unfolding Let_def stmt by (simp add: fixed_driver_def object_keys_def object_values_def)
qed

text \<open>
  Claim C10. With an empty \<open>where\<close> mapping nothing is rejected before the driver is
  reached: \<^verbatim>\<open>remove\<close> submits \<^verbatim>\<open>delete from <table> where \<close> with nothing after the keyword
  and an empty parameter array, and \<^verbatim>\<open>update\<close> submits a statement in which \<^verbatim>\<open>where\<close> is
  followed directly by \<^verbatim>\<open> returning *\<close>, with the data values as its only parameters.
\<close>

theorem empty_where_still_submitted:
  "remove_statement table [] = (''delete from '' @ table @ '' where '', [])
   \<and> sent (snd (remove stringify drv conn table [])) =
         sent conn @ [(''delete from '' @ table @ '' where '', [])]
   \<and> update_statement table [] data =
         (''update '' @ table @ '' set ''
            @ join '', '' (mapi (\<lambda>k i. k @ '' = $'' @ show_nat (i + 1)) (object_keys data))
            @ '' where '' @ '' returning *'',
          object_values data)
   \<and> sent (snd (update stringify drv conn table [] data)) =
         sent conn @ [update_statement table [] data]"
proof -
  have del: "remove_statement table [] = (''delete from '' @ table @ '' where '', [])"
    by (simp add: remove_statement_def object_keys_def object_values_def mapi_def enumerate_eq_zip)
  have upd: "update_statement table [] data =
         (''update '' @ table @ '' set ''
            @ join '', '' (mapi (\<lambda>k i. k @ '' = $'' @ show_nat (i + 1)) (object_keys data))
            @ '' where '' @ '' returning *'',
          object_values data)"
    by (simp add: update_statement_def Let_def object_keys_def object_values_def mapi_def enumerate_eq_zip)
  have "sent (snd (remove stringify drv conn table [])) =
          sent conn @ [(''delete from '' @ table @ '' where '', [])]"
    unfolding remove_submits del ..
  with del upd update_submits [of stringify drv conn table "[]" data] show ?thesis
    by (simp only: simp_thms)
qed

section \<open>The pool initialiser is idempotent\<close>

text \<open>
  Claim C7. When the module's \<open>pool\<close> is already set, \<^verbatim>\<open>init_pool\<close> returns at once and leaves
  the whole module state as it was, for any configuration: the pool object and its options,
  the count of pool objects constructed, the console, and the statements submitted (so no
  initialisation script runs). A call that finds no pool sets it to the pool built from
  that call's configuration, whether or not its script then succeeds. Hence any call that
  follows another call is a no-op, whatever configuration, serialiser and driver behaviour
  it is given: only the first configuration is honoured.
\<close>

theorem init_pool_idempotent:
  "(\<forall>p. pool w = Some p \<longrightarrow> init_pool stringify drv conf w = (Inr (), w))
   \<and> (pool w = None \<longrightarrow>
          pool (snd (init_pool stringify drv conf w)) = Some (new_pool conf)
          \<and> pools_created (snd (init_pool stringify drv conf w)) = Suc (pools_created w))
   \<and> init_pool stringify' drv' conf' (snd (init_pool stringify drv conf w)) =
         (Inr (), snd (init_pool stringify drv conf w))"
proof (intro conjI allI impI)
  fix p assume "pool w = Some p"
  then show "init_pool stringify drv conf w = (Inr (), w)"
    by (rule init_pool_existing)
next
  assume fresh: "pool w = None"
  from init_pool_fresh [OF fresh]
  show "pool (snd (init_pool stringify drv conf w)) = Some (new_pool conf)" ..
  from init_pool_fresh [OF fresh]
  show "pools_created (snd (init_pool stringify drv conf w)) = Suc (pools_created w)" ..
next
  have "\<exists>p. pool (snd (init_pool stringify drv conf w)) = Some p"
  proof (cases "pool w")
    case None
    from init_pool_fresh [OF this] show ?thesis by blast
  next
    case (Some p)
    then show ?thesis by (simp add: init_pool_existing)
  qed
  then obtain p where "pool (snd (init_pool stringify drv conf w)) = Some p" ..
  then show "init_pool stringify' drv' conf' (snd (init_pool stringify drv conf w)) =
               (Inr (), snd (init_pool stringify drv conf w))"
    by (rule init_pool_existing)
qed

theorem init_pool_idempotent_witness:
  "(let stringify = (\<lambda>_. ''[]'');
        drv = fixed_driver (Inr [] :: thrown + rift_object list);
        conf1 = \<lparr>name = ''main'',
                  auth = Some \<lparr>host = Some ''localhost'', port = Some 5432, database = Some ''test'',
                               user = Some ''test'', password = Some ''secret''\<rparr>,
                  conf_max = Some 1000,
                  initial_script = Some ''create table if not exists list (id int not null primary key)''\<rparr>;
        conf2 = \<lparr>name = ''other'', auth = None, conf_max = Some 5,
                  initial_script = Some ''drop table list''\<rparr>;
        w0 = \<lparr>pool = None, pools_created = 0, console = [], client = \<lparr>backend = 0, sent = []\<rparr>\<rparr>;
        w1 = \<lparr>pool = Some (new_pool conf1), pools_created = 1,
               console = [ConsoleTime ''[main DB] Init'', ConsoleTimeEnd ''[main DB] Init''],
               client = \<lparr>backend = 1,
                          sent = [(''create table if not exists list (id int not null primary key)'', [])]\<rparr>\<rparr>
    in pool w0 = None
       \<and> init_pool stringify drv conf1 w0 = (Inr (), w1)
       \<and> pool w1 = Some (new_pool conf1)
       \<and> init_pool stringify drv conf2 w1 = (Inr (), w1))"
proof -
  let ?drv = "fixed_driver (Inr [] :: thrown + rift_object list)"
  let ?script = "''create table if not exists list (id int not null primary key)''"
  let ?conf1 = "\<lparr>name = ''main'',
                  auth = Some \<lparr>host = Some ''localhost'', port = Some 5432, database = Some ''test'',
                               user = Some ''test'', password = Some ''secret''\<rparr>,
                  conf_max = Some 1000, initial_script = Some ?script\<rparr>"
  let ?conf2 = "\<lparr>name = ''other'', auth = None :: string rift_config_auth option, conf_max = Some 5,
                  initial_script = Some ''drop table list''\<rparr>"
  let ?w0 = "\<lparr>pool = None, pools_created = 0, console = [], client = \<lparr>backend = 0 :: nat, sent = []\<rparr>\<rparr>"
  let ?w1 = "\<lparr>pool = Some (new_pool ?conf1), pools_created = 1,
               console = [ConsoleTime ''[main DB] Init'', ConsoleTimeEnd ''[main DB] Init''],
               client = \<lparr>backend = 1 :: nat, sent = [(?script, [])]\<rparr>\<rparr>"
  have first: "init_pool (\<lambda>_. ''[]'') ?drv ?conf1 ?w0 = (Inr (), ?w1)"
    by (simp add: init_pool_def Let_def fixed_driver_def query_unfold conn_query_def dispose_def)
  show ?thesis
    using init_pool_idempotent [of ?w1 "\<lambda>_. ''[]''" ?drv ?conf2 "\<lambda>_. ''[]''" ?drv ?conf2] first
    by (simp add: Let_def)
qed

end
